theory Spec2Isabelle
  imports Complex_Main "HOL-Library.AList" "HOL-Library.Sublist" "HOL-Library.Multiset"
begin

section \<open>Python dictionaries that keep insertion order\<close>

text \<open>
  A Python \<open>dict\<close> iterates in insertion order; assigning to a key that is present
  replaces the value in place, assigning to a new key appends, \<open>del\<close> removes the entry.
  The dictionaries whose order the code observes (\<open>PluginLoader.plugins\<close>,
  \<open>PluginLoader.manifests\<close>) are association lists with \<open>AList.update\<close> and
  \<open>AList.delete\<close>, which do just that.
\<close>

definition dict_keys :: "('k \<times> 'v) list \<Rightarrow> 'k list" where
  "dict_keys d = map fst d"

definition dict_values :: "('k \<times> 'v) list \<Rightarrow> 'v list" where
  "dict_values d = map snd d"

definition dict_has :: "'k \<Rightarrow> ('k \<times> 'v) list \<Rightarrow> bool" where
  "dict_has k d = (k \<in> set (dict_keys d))"

section \<open>Exceptions and JSON values\<close>

datatype py_error =
    ValueError string
  | TypeError string
  | AttributeError string
  | KeyError string
  | OSError string
  | JSONDecodeError
  | TimeoutError        \<comment> \<open>raised by \<open>_execute_with_timeout\<close>\<close>
  | Exception string    \<comment> \<open>any other exception, raised by code the module calls\<close>

text \<open>
  What \<open>json.load\<close> returns: \<open>None\<close>, a bool, a number, a string, a list or a dict
  whose keys are strings. Nothing in the module checks the type of a value read from a
  manifest, so a manifest field holds any of these. A dict is the list of its items, in
  order. (The literals \<open>NaN\<close> and \<open>Infinity\<close>, which \<open>json.load\<close> also reads, are
  left out.)
\<close>

datatype json =
    JNull
  | JBool bool
  | JNum real
  | JStr string
  | JArr "json list"
  | JObj "(string \<times> json) list"

text \<open>Truth value of a JSON value, as \<open>if not x\<close> tests it.\<close>

definition py_truthy :: "json \<Rightarrow> bool" where
  "py_truthy v =
     (case v of
        JNull \<Rightarrow> False
      | JBool b \<Rightarrow> b
      | JNum x \<Rightarrow> x \<noteq> 0
      | JStr s \<Rightarrow> s \<noteq> []
      | JArr xs \<Rightarrow> xs \<noteq> []
      | JObj d \<Rightarrow> d \<noteq> [])"

text \<open>
  \<open>for x in v\<close>: a list gives its elements, a string its characters as one-character
  strings, a dict its keys; anything else is not iterable (\<open>TypeError\<close>).
\<close>

definition py_iter :: "json \<Rightarrow> json list option" where
  "py_iter v =
     (case v of
        JArr xs \<Rightarrow> Some xs
      | JStr s \<Rightarrow> Some (map (\<lambda>c. JStr [c]) s)
      | JObj d \<Rightarrow> Some (map (\<lambda>kv. JStr (fst kv)) d)
      | _ \<Rightarrow> None)"

text \<open>
  \<open>field in data\<close> for a string \<open>field\<close>: key membership for a dict, element
  membership for a list, substring test for a string, \<open>TypeError\<close> otherwise.
\<close>

definition py_in :: "string \<Rightarrow> json \<Rightarrow> py_error + bool" where
  "py_in field data =
     (case data of
        JObj d \<Rightarrow> Inr (field \<in> fst ` set d)
      | JArr xs \<Rightarrow> Inr (JStr field \<in> set xs)
      | JStr s \<Rightarrow> Inr (sublist field s)
      | _ \<Rightarrow> Inl (TypeError ''argument is not iterable''))"

text \<open>
  A value as a dict key: lists and dicts are unhashable (\<open>TypeError\<close>, here \<open>None\<close>);
  \<open>True\<close> and \<open>False\<close> are the keys 1 and 0, since a dict compares keys with \<open>==\<close>.
\<close>

definition py_key :: "json \<Rightarrow> json option" where
  "py_key v =
     (case v of
        JArr xs \<Rightarrow> None
      | JObj d \<Rightarrow> None
      | JBool b \<Rightarrow> Some (JNum (if b then 1 else 0))
      | _ \<Rightarrow> Some v)"

section \<open>Plugin loader (\<open>shivai/core_engine/plugin_loader.py\<close>)\<close>

subsection \<open>Manifests\<close>

text \<open>
  \<open>PluginManifest\<close> is a dataclass of nine fields. The first six have no default, so the
  generated constructor requires them; \<open>dependencies\<close> and \<open>config_schema\<close>
  default to \<open>None\<close>, which \<open>__post_init__\<close> replaces by an empty list and an
  empty dict; \<open>enabled\<close> defaults to \<open>True\<close>. The annotations are not enforced: each
  field holds the value the manifest file gave.
\<close>

record PluginManifest =
  name :: json
  version :: json
  description :: json
  author :: json
  plugin_class :: json
  capabilities :: json
  dependencies :: json
  config_schema :: json
  enabled :: json

definition required_fields :: "string list" where
  "required_fields = [''name'', ''version'', ''description'', ''author'', ''plugin_class'']"

definition manifest_fields :: "string list" where
  "manifest_fields =
     [''name'', ''version'', ''description'', ''author'', ''plugin_class'', ''capabilities'',
      ''dependencies'', ''config_schema'', ''enabled'']"

text \<open>
  \<open>PluginManifest(**data)\<close>: \<open>TypeError\<close> when \<open>data\<close> is no dict, when a key names
  no field, and when one of the six fields without default (\<open>capabilities\<close> among them)
  has no key; then \<open>__post_init__\<close> runs.
\<close>

definition PluginManifest_init :: "json \<Rightarrow> py_error + PluginManifest" where
  "PluginManifest_init data =
     (case data of
        JObj d \<Rightarrow>
          (case find (\<lambda>k. k \<notin> set manifest_fields) (map fst d) of
             Some k \<Rightarrow> Inl (TypeError (''unexpected keyword argument '' @ k))
           | None \<Rightarrow>
          (case map_of d ''name'' of None \<Rightarrow> Inl (TypeError ''missing argument name'') | Some n \<Rightarrow>
          (case map_of d ''version'' of None \<Rightarrow> Inl (TypeError ''missing argument version'') | Some v \<Rightarrow>
          (case map_of d ''description'' of None \<Rightarrow> Inl (TypeError ''missing argument description'') | Some ds \<Rightarrow>
          (case map_of d ''author'' of None \<Rightarrow> Inl (TypeError ''missing argument author'') | Some a \<Rightarrow>
          (case map_of d ''plugin_class'' of None \<Rightarrow> Inl (TypeError ''missing argument plugin_class'') | Some pc \<Rightarrow>
          (case map_of d ''capabilities'' of None \<Rightarrow> Inl (TypeError ''missing argument capabilities'') | Some caps \<Rightarrow>
             Inr \<lparr> name = n, version = v, description = ds, author = a, plugin_class = pc,
                   capabilities = caps,
                   dependencies =
                     (case map_of d ''dependencies'' of None \<Rightarrow> JArr [] | Some JNull \<Rightarrow> JArr [] | Some deps \<Rightarrow> deps),
                   config_schema =
                     (case map_of d ''config_schema'' of None \<Rightarrow> JObj [] | Some JNull \<Rightarrow> JObj [] | Some cs \<Rightarrow> cs),
                   enabled = (case map_of d ''enabled'' of None \<Rightarrow> JBool True | Some b \<Rightarrow> b) \<rparr>)))))))
      | _ \<Rightarrow> Inl (TypeError ''argument after ** must be a mapping''))"

text \<open>
  The loop of \<open>_load_manifest\<close> over \<open>required_fields\<close>: it raises \<open>ValueError\<close> at the
  first field that is not in \<open>data\<close>; the test itself raises when \<open>data\<close> is a number,
  a bool or \<open>None\<close>.
\<close>

fun validate_required :: "string list \<Rightarrow> json \<Rightarrow> py_error option" where
  "validate_required [] data = None"
| "validate_required (field # rest) data =
     (case py_in field data of
        Inl e \<Rightarrow> Some e
      | Inr False \<Rightarrow> Some (ValueError (''Missing required field: '' @ field))
      | Inr True \<Rightarrow> validate_required rest data)"

text \<open>\<open>_load_manifest\<close> after \<open>json.load\<close> has returned \<open>data\<close>.\<close>

definition load_manifest :: "json \<Rightarrow> py_error + PluginManifest" where
  "load_manifest data =
     (case validate_required required_fields data of
        Some e \<Rightarrow> Inl e
      | None \<Rightarrow> PluginManifest_init data)"

subsection \<open>Plugin instances\<close>

text \<open>
  What a plugin class does when the loader calls it: whether its constructor raises, what
  \<open>initialize()\<close> does (returns a true value, a false value, or raises), whether
  \<open>shutdown()\<close> raises, and the list \<open>get_capabilities()\<close> returns.
  \<open>BasePlugin\<close> itself initialises to \<open>True\<close>, shuts down silently and returns
  \<open>[]\<close> from \<open>get_capabilities\<close>.
\<close>

datatype init_outcome = Init_True | Init_False | Init_Raises py_error

record plugin_behaviour =
  ctor_raises :: "py_error option"
  initialize :: init_outcome
  shutdown_raises :: "py_error option"
  get_capabilities :: "string list"

definition BasePlugin_behaviour :: plugin_behaviour where
  "BasePlugin_behaviour =
     \<lparr> ctor_raises = None, initialize = Init_True, shutdown_raises = None,
       get_capabilities = [] \<rparr>"

record BasePlugin =
  config :: "(string \<times> string) list"
  plugin_enabled :: bool   \<comment> \<open>the instance attribute \<open>enabled\<close>\<close>
  behaviour :: plugin_behaviour

text \<open>\<open>BasePlugin.__init__\<close>: \<open>self.config = config or {}\<close>, \<open>self.enabled = True\<close>.\<close>

definition BasePlugin_init :: "plugin_behaviour \<Rightarrow> (string \<times> string) list \<Rightarrow> BasePlugin" where
  "BasePlugin_init cls cfg = \<lparr> config = cfg, plugin_enabled = True, behaviour = cls \<rparr>"

subsection \<open>The loader\<close>

text \<open>
  The records the module's logger receives, in the order of the calls. A record that the
  source formats with an exception carries that exception.
\<close>

datatype log_record =
    Info_initialized "string list"
  | Warning_directory_not_found string
  | Info_discovered json json
  | Error_manifest_failed string py_error
  | Info_discovered_total nat
  | Warning_already_loaded string
  | Error_plugin_not_found string
  | Warning_missing_dependency json
  | Error_missing_dependencies string
  | Error_import_exception json py_error
  | Error_import_failed json
  | Error_initialization_failed string
  | Error_failed_to_load string py_error
  | Info_loaded string
  | Warning_not_loaded string
  | Info_unloaded string
  | Error_failed_to_unload string py_error

text \<open>
  The calls the loader makes into plugin code that may change a plugin: the constructor,
  \<open>initialize()\<close> and \<open>shutdown()\<close>, each with the name of the plugin.
\<close>

datatype hook_call = Constructor_called string | Initialize_called string | Shutdown_called string

text \<open>
  The loader. \<open>manifests\<close> and \<open>plugin_paths\<close> are keyed by the \<open>name\<close> a manifest
  gives, which is any hashable JSON value; \<open>plugins\<close> is keyed by the names that
  \<open>load_plugin\<close> is called with, which are strings. \<open>logged\<close> and \<open>hook_calls\<close>
  are no attributes of the class: they record, in order, what the loader has sent to the
  logger and which hooks it has called.
\<close>

record PluginLoader =
  plugin_dirs :: "string list"
  plugins :: "(string \<times> BasePlugin) list"
  manifests :: "(json \<times> PluginManifest) list"
  plugin_paths :: "(json \<times> string) list"
  logged :: "log_record list"
  hook_calls :: "hook_call list"

text \<open>\<open>__init__\<close>: \<open>plugin_dirs or ["shivai/plugins"]\<close>, three empty dicts.\<close>

definition PluginLoader_init :: "string list \<Rightarrow> PluginLoader" where
  "PluginLoader_init dirs =
     (let ds = (if dirs = [] then [''shivai/plugins''] else dirs) in
      \<lparr> plugin_dirs = ds, plugins = [], manifests = [], plugin_paths = [],
        logged = [Info_initialized ds], hook_calls = [] \<rparr>)"

definition log :: "log_record \<Rightarrow> PluginLoader \<Rightarrow> PluginLoader" where
  "log r L = L\<lparr>logged := logged L @ [r]\<rparr>"

definition call_hook :: "hook_call \<Rightarrow> PluginLoader \<Rightarrow> PluginLoader" where
  "call_hook c L = L\<lparr>hook_calls := hook_calls L @ [c]\<rparr>"

subsubsection \<open>Discovery\<close>

text \<open>
  The file system as \<open>discover_plugins\<close> reads it. A plugin directory does not exist
  (\<open>None\<close>), exists and cannot be listed (\<open>os.listdir\<close> raises), or lists its items in
  \<open>os.listdir\<close> order. An item is a subdirectory or not; a subdirectory has no
  \<open>manifest.json\<close>, one that \<open>open\<close> or \<open>json.load\<close> raises on, or one that
  \<open>json.load\<close> reads to a value.
\<close>

datatype manifest_file = Unreadable py_error | Parsed json

datatype dir_item = Plain_file | Subdir "manifest_file option"

datatype dir_state = Unlistable py_error | Listing "(string \<times> dir_item) list"

type_synonym file_system = "string \<Rightarrow> dir_state option"

text \<open>\<open>os.path.join\<close> of a directory path and a plain name.\<close>

definition path_join :: "string \<Rightarrow> string \<Rightarrow> string" where
  "path_join a b = (if a = [] then b else if last a = CHR ''/'' then a @ b else a @ ''/'' @ b)"

text \<open>
  One iteration of the inner loop, for the item \<open>item\<close> of \<open>plugin_dir\<close>. Inside the
  \<open>try\<close>: \<open>_load_manifest\<close>, then the store into \<open>self.manifests\<close>, which raises
  \<open>TypeError\<close> for an unhashable name before anything is stored, then the store into
  \<open>self.plugin_paths\<close>, the append and the info record. The handler logs the exception.
\<close>

definition discover_item ::
  "string \<Rightarrow> string \<times> dir_item \<Rightarrow> json list \<times> PluginLoader \<Rightarrow> json list \<times> PluginLoader" where
  "discover_item plugin_dir item acc =
     (let (discovered, L) = acc;
          item_path = path_join plugin_dir (fst item);
          manifest_path = path_join item_path ''manifest.json''
      in
      case snd item of
        Plain_file \<Rightarrow> acc
      | Subdir None \<Rightarrow> acc
      | Subdir (Some file) \<Rightarrow>
          (case (case file of Unreadable e \<Rightarrow> Inl e | Parsed data \<Rightarrow> load_manifest data) of
             Inl e \<Rightarrow> (discovered, log (Error_manifest_failed manifest_path e) L)
           | Inr manifest \<Rightarrow>
               (case py_key (name manifest) of
                  None \<Rightarrow>
                    (discovered, log (Error_manifest_failed manifest_path (TypeError ''unhashable type'')) L)
                | Some plugin_name \<Rightarrow>
                    (discovered @ [name manifest],
                     log (Info_discovered (name manifest) (version manifest))
                       (L\<lparr> manifests := AList.update plugin_name manifest (manifests L),
                           plugin_paths := AList.update plugin_name item_path (plugin_paths L) \<rparr>)))))"

text \<open>
  The outer loop. \<open>os.listdir\<close> is outside every \<open>try\<close>: when it raises, the exception
  leaves \<open>discover_plugins\<close>, and what was stored before stays stored.
\<close>

fun discover_dirs ::
  "file_system \<Rightarrow> string list \<Rightarrow> json list \<times> PluginLoader \<Rightarrow> (py_error + json list) \<times> PluginLoader" where
  "discover_dirs fs [] acc = (Inr (fst acc), log (Info_discovered_total (length (fst acc))) (snd acc))"
| "discover_dirs fs (plugin_dir # dirs) acc =
     (case fs plugin_dir of
        None \<Rightarrow> discover_dirs fs dirs (fst acc, log (Warning_directory_not_found plugin_dir) (snd acc))
      | Some (Unlistable e) \<Rightarrow> (Inl e, snd acc)
      | Some (Listing items) \<Rightarrow> discover_dirs fs dirs (fold (discover_item plugin_dir) items acc))"

definition discover_plugins :: "file_system \<Rightarrow> PluginLoader \<Rightarrow> (py_error + json list) \<times> PluginLoader" where
  "discover_plugins fs L = discover_dirs fs (plugin_dirs L) ([], L)"

subsubsection \<open>Loading and unloading\<close>

text \<open>
  The loop of \<open>_check_dependencies\<close>: it returns false, after a warning, at the first
  dependency that is not a key of \<open>self.plugins\<close>. The keys are strings, so no other
  hashable value is one; \<open>dep not in self.plugins\<close> raises \<open>TypeError\<close> for a list or
  a dict.
\<close>

fun check_dependencies_loop :: "json list \<Rightarrow> PluginLoader \<Rightarrow> (py_error + bool) \<times> PluginLoader" where
  "check_dependencies_loop [] L = (Inr True, L)"
| "check_dependencies_loop (dep # deps) L =
     (case dep of
        JStr s \<Rightarrow>
          if \<not> dict_has s (plugins L) then (Inr False, log (Warning_missing_dependency dep) L)
          else check_dependencies_loop deps L
      | JArr xs \<Rightarrow> (Inl (TypeError ''unhashable type''), L)
      | JObj d \<Rightarrow> (Inl (TypeError ''unhashable type''), L)
      | _ \<Rightarrow> (Inr False, log (Warning_missing_dependency dep) L))"

text \<open>\<open>_check_dependencies\<close>: true for a false value (\<open>if not dependencies\<close>), else the loop.\<close>

definition check_dependencies :: "json \<Rightarrow> PluginLoader \<Rightarrow> (py_error + bool) \<times> PluginLoader" where
  "check_dependencies deps L =
     (if \<not> py_truthy deps then (Inr True, L)
      else case py_iter deps of
        None \<Rightarrow> (Inl (TypeError ''object is not iterable''), L)
      | Some xs \<Rightarrow> check_dependencies_loop xs L)"

text \<open>
  \<open>_import_plugin_class\<close> catches every exception, logs it and returns \<open>None\<close>; it also
  returns \<open>None\<close>, without a record, when no module spec is found. \<open>rsplit\<close> raises
  \<open>AttributeError\<close> on a class reference that is no string, and the unpacking raises
  \<open>ValueError\<close> on one without a dot. What the import finds under a path and a class
  reference is the environment, a parameter here.
\<close>

datatype import_result = Import_raises py_error | Import_no_spec | Import_class plugin_behaviour

type_synonym importer = "string \<Rightarrow> string \<Rightarrow> import_result"

definition import_plugin_class ::
  "importer \<Rightarrow> string \<Rightarrow> json \<Rightarrow> PluginLoader \<Rightarrow> plugin_behaviour option \<times> PluginLoader" where
  "import_plugin_class imp plugin_path pc L =
     (case pc of
        JStr s \<Rightarrow>
          if CHR ''.'' \<notin> set s then
            (None, log (Error_import_exception pc (ValueError ''not enough values to unpack'')) L)
          else
            (case imp plugin_path s of
               Import_raises e \<Rightarrow> (None, log (Error_import_exception pc e) L)
             | Import_no_spec \<Rightarrow> (None, L)
             | Import_class cls \<Rightarrow> (Some cls, L))
      | _ \<Rightarrow> (None, log (Error_import_exception pc (AttributeError ''rsplit'')) L))"

text \<open>
  \<open>load_plugin\<close>. The two early returns come first; the lookup of the path is outside the
  \<open>try\<close>, so a missing path would propagate a \<open>KeyError\<close>; everything after is inside
  the \<open>try\<close>, whose handler logs and returns \<open>False\<close>.
\<close>

definition load_plugin ::
  "importer \<Rightarrow> string \<Rightarrow> (string \<times> string) list \<Rightarrow> PluginLoader \<Rightarrow> (py_error + bool) \<times> PluginLoader" where
  "load_plugin imp plugin_name cfg L =
     (if dict_has plugin_name (plugins L) then
        (Inr True, log (Warning_already_loaded plugin_name) L)
      else case map_of (manifests L) (JStr plugin_name) of
        None \<Rightarrow> (Inr False, log (Error_plugin_not_found plugin_name) L)
      | Some manifest \<Rightarrow>
      (case map_of (plugin_paths L) (JStr plugin_name) of
        None \<Rightarrow> (Inl (KeyError plugin_name), L)
      | Some plugin_path \<Rightarrow>
      (case check_dependencies (dependencies manifest) L of
        (Inl e, L1) \<Rightarrow> (Inr False, log (Error_failed_to_load plugin_name e) L1)
      | (Inr False, L1) \<Rightarrow> (Inr False, log (Error_missing_dependencies plugin_name) L1)
      | (Inr True, L1) \<Rightarrow>
      (case import_plugin_class imp plugin_path (plugin_class manifest) L1 of
        (None, L2) \<Rightarrow> (Inr False, log (Error_import_failed (plugin_class manifest)) L2)
      | (Some cls, L2) \<Rightarrow>
      (let L3 = call_hook (Constructor_called plugin_name) L2 in
       case ctor_raises cls of
        Some e \<Rightarrow> (Inr False, log (Error_failed_to_load plugin_name e) L3)
      | None \<Rightarrow>
          (let plugin_instance = BasePlugin_init cls cfg;
               L4 = call_hook (Initialize_called plugin_name) L3
           in
           case initialize cls of
             Init_Raises e \<Rightarrow> (Inr False, log (Error_failed_to_load plugin_name e) L4)
           | Init_False \<Rightarrow> (Inr False, log (Error_initialization_failed plugin_name) L4)
           | Init_True \<Rightarrow>
               (Inr True,
                log (Info_loaded plugin_name)
                  (L4\<lparr>plugins := AList.update plugin_name plugin_instance (plugins L4)\<rparr>))))))))"

text \<open>
  \<open>unload_plugin\<close>: \<open>shutdown()\<close> and the \<open>del\<close> are both inside the \<open>try\<close>; when
  \<open>shutdown()\<close> raises, control passes to the handler before the \<open>del\<close>.
\<close>

definition unload_plugin :: "string \<Rightarrow> PluginLoader \<Rightarrow> (py_error + bool) \<times> PluginLoader" where
  "unload_plugin plugin_name L =
     (case map_of (plugins L) plugin_name of
        None \<Rightarrow> (Inr False, log (Warning_not_loaded plugin_name) L)
      | Some plugin \<Rightarrow>
          (let L1 = call_hook (Shutdown_called plugin_name) L in
           case shutdown_raises (behaviour plugin) of
             Some e \<Rightarrow> (Inr False, log (Error_failed_to_unload plugin_name e) L1)
           | None \<Rightarrow>
               (Inr True,
                log (Info_unloaded plugin_name)
                  (L1\<lparr>plugins := AList.delete plugin_name (plugins L1)\<rparr>))))"

text \<open>\<open>enable_plugin\<close> and \<open>disable_plugin\<close> set the instance's \<open>enabled\<close>.\<close>

definition set_enabled :: "bool \<Rightarrow> string \<Rightarrow> PluginLoader \<Rightarrow> bool \<times> PluginLoader" where
  "set_enabled b plugin_name L =
     (case map_of (plugins L) plugin_name of
        Some plugin \<Rightarrow>
          (True, L\<lparr>plugins := AList.update plugin_name (plugin\<lparr>plugin_enabled := b\<rparr>) (plugins L)\<rparr>)
      | None \<Rightarrow> (False, L))"

definition enable_plugin :: "string \<Rightarrow> PluginLoader \<Rightarrow> bool \<times> PluginLoader" where
  "enable_plugin = set_enabled True"

definition disable_plugin :: "string \<Rightarrow> PluginLoader \<Rightarrow> bool \<times> PluginLoader" where
  "disable_plugin = set_enabled False"

text \<open>
  \<open>get_plugins_by_capability\<close>: the loop over \<open>self.plugins.items()\<close> skips an instance
  whose \<open>enabled\<close> is false and appends one whose \<open>get_capabilities()\<close> contains the
  capability. The names are kept beside the instances here, since two instances may be
  equal as values; the source's result is the second components.
\<close>

fun matching_plugins :: "string \<Rightarrow> (string \<times> BasePlugin) list \<Rightarrow> (string \<times> BasePlugin) list" where
  "matching_plugins capability [] = []"
| "matching_plugins capability ((plugin_name, plugin) # rest) =
     (if \<not> plugin_enabled plugin then matching_plugins capability rest
      else if capability \<in> set (get_capabilities (behaviour plugin))
        then (plugin_name, plugin) # matching_plugins capability rest
      else matching_plugins capability rest)"

definition get_plugins_by_capability :: "string \<Rightarrow> PluginLoader \<Rightarrow> BasePlugin list" where
  "get_plugins_by_capability capability L = map snd (matching_plugins capability (plugins L))"

section \<open>Task queue (\<open>shivai/core_engine/task_queue.py\<close>)\<close>

subsection \<open>Tasks and results\<close>

datatype TaskPriority = CRITICAL | HIGH | NORMAL | LOW | BACKGROUND

text \<open>The \<open>IntEnum\<close> values.\<close>

fun priority_value :: "TaskPriority \<Rightarrow> nat" where
  "priority_value CRITICAL = 0"
| "priority_value HIGH = 1"
| "priority_value NORMAL = 2"
| "priority_value LOW = 3"
| "priority_value BACKGROUND = 4"

datatype pyval = PyNone | PyInt int | PyStr string

text \<open>
  One call \<open>task.func(*task.args, **task.kwargs)\<close>: how long it takes and what it does
  (returns a value or raises). A task's work is the sequence of its calls: \<open>func t k\<close>
  is the call made when \<open>k\<close> calls of the task have gone before. Times are real numbers.
\<close>

datatype call_outcome = Return pyval | Raise py_error

record call =
  duration :: real
  outcome :: call_outcome

text \<open>
  The dataclass \<open>Task\<close>. \<open>order=True\<close> with \<open>compare=True\<close> on \<open>priority\<close> and
  \<open>created_at\<close> only: tasks compare as the pairs \<open>(priority, created_at)\<close>.
  \<open>created_at\<close> is the reading of \<open>time.time()\<close> when the task is built,
  \<open>task_id\<close> the \<open>uuid4\<close> drawn then. \<open>args\<close> and \<open>kwargs\<close> are part of \<open>func\<close>
  here. A callback is \<open>None\<close> or a callable, named here by a label.

  As the class statement is written, \<open>dataclass\<close> itself refuses it: \<open>func\<close> has no
  default and follows two fields that have one, which raises \<open>TypeError\<close> when the module
  is imported. The record below is the class with its fields as declared; \<open>submit\<close>, the
  only place that builds a \<open>Task\<close>, passes every field by keyword. Everything in this
  section is about the methods as written, for a \<open>Task\<close> class that is accepted.
\<close>

record Task =
  priority :: TaskPriority
  created_at :: real
  task_id :: string
  func :: "nat \<Rightarrow> call"
  max_retries :: int
  retry_count :: nat
  retry_delay :: real
  timeout :: "real option"
  callback :: "string option"
  error_callback :: "string option"

text \<open>The generated \<open>__lt__\<close>: the tuples \<open>(priority, created_at)\<close>, lexicographically.\<close>

definition task_lt :: "Task \<Rightarrow> Task \<Rightarrow> bool" where
  "task_lt a b =
     (if priority_value (priority a) \<noteq> priority_value (priority b)
      then priority_value (priority a) < priority_value (priority b)
      else created_at a < created_at b)"

text \<open>\<open>TaskResult\<close>.\<close>

record TaskResult =
  result_task_id :: string
  success :: bool
  result :: pyval
  error :: "py_error option"
  execution_time :: real
  result_retry_count :: nat

subsection \<open>The heap of \<open>queue.PriorityQueue\<close>\<close>

text \<open>
  \<open>PriorityQueue\<close> keeps its items in a list ordered by \<open>heapq\<close>: \<open>put\<close> is
  \<open>heappush\<close>, \<open>get\<close> is \<open>heappop\<close>. The four functions below are those of
  \<open>heapq\<close>, which compares items with \<open><\<close> only. Every index they read is inside
  the list: \<open>_siftdown\<close> starts at the last index, \<open>_siftup\<close> at 0 of a non-empty list.
\<close>

function siftdown_loop :: "Task list \<Rightarrow> Task \<Rightarrow> nat \<Rightarrow> nat \<Rightarrow> Task list" where
  "siftdown_loop heap newitem startpos pos =
     (if pos > startpos then
        (let parentpos = (pos - 1) div 2; parent = heap ! parentpos in
         if task_lt newitem parent
         then siftdown_loop (heap[pos := parent]) newitem startpos parentpos
         else heap[pos := newitem])
      else heap[pos := newitem])"
  by pat_completeness auto
termination
  by (relation "measure (\<lambda>(heap, newitem, startpos, pos). pos)") auto

definition siftdown :: "Task list \<Rightarrow> nat \<Rightarrow> nat \<Rightarrow> Task list" where
  "siftdown heap startpos pos = siftdown_loop heap (heap ! pos) startpos pos"

text \<open>
  The loop of \<open>_siftup\<close>: the smaller child moves up until a leaf is reached; the result
  is the list and the position of the hole.
\<close>

function siftup_loop :: "Task list \<Rightarrow> nat \<Rightarrow> nat \<Rightarrow> Task list \<times> nat" where
  "siftup_loop heap endpos pos =
     (let childpos = 2 * pos + 1 in
      if childpos < endpos then
        (let rightpos = childpos + 1;
             childpos = (if rightpos < endpos \<and> \<not> task_lt (heap ! childpos) (heap ! rightpos)
                         then rightpos else childpos)
         in siftup_loop (heap[pos := heap ! childpos]) endpos childpos)
      else (heap, pos))"
  by pat_completeness auto
termination
  by (relation "measure (\<lambda>(heap, endpos, pos). endpos - pos)") (auto simp: Let_def)

definition siftup :: "Task list \<Rightarrow> nat \<Rightarrow> Task list" where
  "siftup heap pos =
     (let endpos = length heap; startpos = pos; newitem = heap ! pos;
          (heap1, pos1) = siftup_loop heap endpos pos
      in siftdown (heap1[pos1 := newitem]) startpos pos1)"

definition heappush :: "Task list \<Rightarrow> Task \<Rightarrow> Task list" where
  "heappush heap item = siftdown (heap @ [item]) 0 (length heap)"

text \<open>\<open>heappop\<close>; \<open>None\<close> stands for the empty heap, which \<open>get\<close> never pops.\<close>

definition heappop :: "Task list \<Rightarrow> (Task \<times> Task list) option" where
  "heappop heap =
     (if heap = [] then None
      else
        (let lastelt = last heap; heap1 = butlast heap in
         if heap1 \<noteq> [] then Some (heap1 ! 0, siftup (heap1[0 := lastelt]) 0)
         else Some (lastelt, heap1)))"

subsection \<open>The queue\<close>

text \<open>
  What the queue does that can be observed from outside, in order: each call of a task's
  work (with the number of calls gone before), each \<open>time.sleep\<close> of a worker, each
  callback call, and each exception a worker catches in its outer handler.
\<close>

datatype event =
    Executed string nat
  | Slept real
  | Callback_called string pyval
  | Error_callback_called string "py_error option"
  | Worker_error py_error

text \<open>
  The queue object: the heap of \<open>self.queue\<close>, the flag, the two dicts. \<open>trace\<close> is no
  attribute of the class: it records the events above in order.
\<close>

record TaskQueue =
  max_workers :: nat
  queue :: "Task list"
  running :: bool
  pending_tasks :: "string \<rightharpoonup> Task"
  completed_tasks :: "string \<rightharpoonup> TaskResult"
  trace :: "event list"



definition stop :: "TaskQueue \<Rightarrow> TaskQueue" where
  "stop q = (if \<not> running q then q else q\<lparr>running := False\<rparr>)"



text \<open>
  \<open>_execute_with_timeout\<close>: the call runs in a thread that is joined for at most
  \<open>task.timeout\<close>; a call still running then gives \<open>TimeoutError\<close> after that time,
  otherwise the call's own outcome after its own time.
\<close>

definition execute_with_timeout :: "Task \<Rightarrow> real \<Rightarrow> call" where
  "execute_with_timeout task tmo =
     (let c = func task (retry_count task) in
      if duration c > tmo then \<lparr> duration = max tmo 0, outcome = Raise TimeoutError \<rparr> else c)"

text \<open>The \<open>try\<close> body of \<open>_execute_task\<close>: \<open>if task.timeout:\<close> is false for \<open>None\<close> and for 0.\<close>

definition call_func :: "Task \<Rightarrow> call" where
  "call_func task =
     (case timeout task of
        Some tmo \<Rightarrow> if tmo \<noteq> 0 then execute_with_timeout task tmo
                    else func task (retry_count task)
      | None \<Rightarrow> func task (retry_count task))"

text \<open>
  \<open>_execute_task\<close>. The task object is shared with \<open>pending_tasks\<close>, so the increment of
  \<open>retry_count\<close> shows there too while the entry exists. \<open>time.sleep\<close> raises
  \<open>ValueError\<close> for a negative length; that happens inside the \<open>except\<close> block and
  leaves \<open>_execute_task\<close> as an exception.
\<close>

definition execute_task :: "Task \<Rightarrow> TaskQueue \<Rightarrow> (py_error + TaskResult) \<times> TaskQueue" where
  "execute_task task q =
     (let q1 = q\<lparr>trace := trace q @ [Executed (task_id task) (retry_count task)]\<rparr>;
          c = call_func task
      in
      case outcome c of
        Return v \<Rightarrow>
          (Inr \<lparr> result_task_id = task_id task, success = True, result = v, error = None,
                 execution_time = duration c, result_retry_count = retry_count task \<rparr>, q1)
      | Raise e \<Rightarrow>
          if int (retry_count task) < max_retries task then
            (let task1 = task\<lparr>retry_count := retry_count task + 1\<rparr>;
                 q2 = q1\<lparr>pending_tasks :=
                         (if task_id task \<in> dom (pending_tasks q1)
                          then (pending_tasks q1)(task_id task \<mapsto> task1)
                          else pending_tasks q1)\<rparr>;
                 delay = retry_delay task1 * 2 ^ (retry_count task1 - 1)
             in if delay < 0 then (Inl (ValueError ''sleep length must be non-negative''), q2)
                else
                  (Inr \<lparr> result_task_id = task_id task1, success = False, result = PyNone,
                         error = Some e, execution_time = duration c,
                         result_retry_count = retry_count task1 \<rparr>,
                   q2\<lparr> trace := trace q2 @ [Slept delay],
                       queue := heappush (queue q2) task1 \<rparr>))
          else
            (Inr \<lparr> result_task_id = task_id task, success = False, result = PyNone,
                   error = Some e, execution_time = duration c,
                   result_retry_count = retry_count task \<rparr>, q1))"

text \<open>
  The worker. \<open>queue_get\<close> is \<open>self.queue.get(timeout=0.5)\<close>, \<open>None\<close> standing for
  \<open>Empty\<close>; the state it returns is the one in which the worker holds the task and has
  not run it yet. \<open>process_task\<close> is the rest of the loop body, what a worker does with
  the task it holds: run the task, store the result and drop the pending entry under the
  lock, then call one callback; an exception of a callback is caught and logged, one of
  \<open>_execute_task\<close> is caught by the outer handler before anything is stored.
\<close>

definition queue_get :: "TaskQueue \<Rightarrow> (Task \<times> TaskQueue) option" where
  "queue_get q =
     (case heappop (queue q) of
        None \<Rightarrow> None
      | Some (task, heap) \<Rightarrow> Some (task, q\<lparr>queue := heap\<rparr>))"

definition process_task :: "Task \<Rightarrow> TaskQueue \<Rightarrow> TaskQueue" where
  "process_task task q =
     (case execute_task task q of
        (Inl e, q1) \<Rightarrow> q1\<lparr>trace := trace q1 @ [Worker_error e]\<rparr>
      | (Inr res, q1) \<Rightarrow>
          (let q2 = q1\<lparr> completed_tasks := (completed_tasks q1)(task_id task \<mapsto> res),
                       pending_tasks := (pending_tasks q1)(task_id task := None) \<rparr>
           in if success res \<and> callback task \<noteq> None then
                q2\<lparr>trace := trace q2 @ [Callback_called (task_id task) (result res)]\<rparr>
              else if \<not> success res \<and> error_callback task \<noteq> None then
                q2\<lparr>trace := trace q2 @ [Error_callback_called (task_id task) (error res)]\<rparr>
              else q2))"

text \<open>
  \<open>_worker\<close> runs \<open>while self.running\<close>, without end while the flag stays set;
  \<open>worker n\<close> is the state after at most \<open>n\<close> rounds of the loop of one worker thread
  that runs alone (a round that finds the queue empty changes nothing).
\<close>

fun worker :: "nat \<Rightarrow> TaskQueue \<Rightarrow> TaskQueue" where
  "worker 0 q = q"
| "worker (Suc n) q =
     (if \<not> running q then q
      else case queue_get q of
        None \<Rightarrow> worker n q
      | Some (task, q1) \<Rightarrow> worker n (process_task task q1))"




subsection \<open>Notions used to state the properties of the queue\<close>

text \<open>
  \<open>task_le a b\<close>: \<open>b\<close> does not compare below \<open>a\<close>. \<open>heap_inv\<close>: no item compares
  below its parent, the invariant of \<open>heapq\<close>.
\<close>

definition task_le :: "Task \<Rightarrow> Task \<Rightarrow> bool" where
  "task_le a b = (\<not> task_lt b a)"






definition callback_calls :: "string \<Rightarrow> event list \<Rightarrow> event list" where
  "callback_calls tid evs =
     filter (\<lambda>ev. case ev of Callback_called i v \<Rightarrow> i = tid | _ \<Rightarrow> False) evs"



section \<open>Concrete plugins, file systems and queues\<close>

subsection \<open>Plugins\<close>

text \<open>
  Three manifests: \<open>A\<close> declares the capability \<open>speech\<close> and depends on nothing,
  \<open>B\<close> depends on \<open>A\<close>, \<open>C\<close> depends on \<open>A\<close> and on \<open>Z\<close>, which no directory
  holds. A fourth dict has the five keys of \<open>required_fields\<close> and no \<open>capabilities\<close>.
\<close>

definition manifest_no_capabilities :: json where
  "manifest_no_capabilities =
     JObj [(''name'', JStr ''A''), (''version'', JStr ''1.0.0''),
           (''description'', JStr ''speech input''), (''author'', JStr ''shivai''),
           (''plugin_class'', JStr ''plugin.A'')]"

definition manifest_A :: json where
  "manifest_A =
     JObj [(''name'', JStr ''A''), (''version'', JStr ''1.0.0''),
           (''description'', JStr ''speech input''), (''author'', JStr ''shivai''),
           (''plugin_class'', JStr ''plugin.A''), (''capabilities'', JArr [JStr ''speech''])]"

definition manifest_B :: json where
  "manifest_B =
     JObj [(''name'', JStr ''B''), (''version'', JStr ''1.0.0''),
           (''description'', JStr ''speech input''), (''author'', JStr ''shivai''),
           (''plugin_class'', JStr ''plugin.B''), (''capabilities'', JArr [JStr ''speech'']),
           (''dependencies'', JArr [JStr ''A''])]"

definition manifest_C :: json where
  "manifest_C =
     JObj [(''name'', JStr ''C''), (''version'', JStr ''1.0.0''),
           (''description'', JStr ''speech input''), (''author'', JStr ''shivai''),
           (''plugin_class'', JStr ''plugin.C''), (''capabilities'', JArr [JStr ''speech'']),
           (''dependencies'', JArr [JStr ''A'', JStr ''Z''])]"

definition example_fs :: file_system where
  "example_fs dir =
     (if dir = ''plugins'' then
        Some (Listing [(''a'', Subdir (Some (Parsed manifest_A))),
                       (''b'', Subdir (Some (Parsed manifest_B))),
                       (''c'', Subdir (Some (Parsed manifest_C)))])
      else None)"

definition fs_no_capabilities :: file_system where
  "fs_no_capabilities dir =
     (if dir = ''plugins'' then Some (Listing [(''a'', Subdir (Some (Parsed manifest_no_capabilities)))])
      else None)"

text \<open>
  Three worlds of plugin code: every class is a bare subclass of \<open>BasePlugin\<close>
  (\<open>get_capabilities\<close> is the inherited one and returns \<open>[]\<close>); every class returns
  \<open>[''speech'']\<close> from \<open>get_capabilities\<close>; every class has a \<open>shutdown\<close> that raises.
\<close>

definition plain_importer :: importer where
  "plain_importer path cls = Import_class BasePlugin_behaviour"

definition speech_importer :: importer where
  "speech_importer path cls = Import_class (BasePlugin_behaviour\<lparr>get_capabilities := [''speech'']\<rparr>)"

definition faulty_importer :: importer where
  "faulty_importer path cls =
     Import_class (BasePlugin_behaviour\<lparr>shutdown_raises := Some (Exception ''device busy'')\<rparr>)"

text \<open>The loader after discovery in \<open>example_fs\<close>, and after some loads and unloads.\<close>

definition discovered :: PluginLoader where
  "discovered = snd (discover_plugins example_fs (PluginLoader_init [''plugins'']))"

definition loaded_with :: "importer \<Rightarrow> string \<Rightarrow> PluginLoader \<Rightarrow> PluginLoader" where
  "loaded_with imp plugin_name L = snd (load_plugin imp plugin_name [] L)"

definition A_manifest :: PluginManifest where
  "A_manifest =
     \<lparr> name = JStr ''A'', version = JStr ''1.0.0'', description = JStr ''speech input'',
       author = JStr ''shivai'', plugin_class = JStr ''plugin.A'',
       capabilities = JArr [JStr ''speech''], dependencies = JArr [], config_schema = JObj [],
       enabled = JBool True \<rparr>"

definition B_manifest :: PluginManifest where
  "B_manifest =
     A_manifest\<lparr> name := JStr ''B'', plugin_class := JStr ''plugin.B'',
                 dependencies := JArr [JStr ''A''] \<rparr>"

definition C_manifest :: PluginManifest where
  "C_manifest =
     A_manifest\<lparr> name := JStr ''C'', plugin_class := JStr ''plugin.C'',
                 dependencies := JArr [JStr ''A'', JStr ''Z''] \<rparr>"

definition loader_A :: PluginLoader where
  "loader_A = loaded_with plain_importer ''A'' discovered"

definition loader_AB :: PluginLoader where
  "loader_AB = loaded_with plain_importer ''B'' loader_A"

definition loader_B_without_A :: PluginLoader where
  "loader_B_without_A = snd (unload_plugin ''A'' loader_AB)"



subsection \<open>Queues\<close>

















section \<open>Properties of the plugin loader\<close>

lemmas loader_defs =
  discover_plugins_def discover_item_def example_fs_def
  fs_no_capabilities_def PluginLoader_init_def load_manifest_def PluginManifest_init_def
  py_in_def py_key_def py_truthy_def py_iter_def required_fields_def manifest_fields_def
  manifest_A_def manifest_B_def manifest_C_def
  manifest_no_capabilities_def log_def call_hook_def path_join_def load_plugin_def unload_plugin_def
  check_dependencies_def import_plugin_class_def
  dict_has_def dict_keys_def plain_importer_def speech_importer_def faulty_importer_def
  BasePlugin_behaviour_def BasePlugin_init_def get_plugins_by_capability_def set_enabled_def
  disable_plugin_def enable_plugin_def loaded_with_def Let_def

subsection \<open>Dictionaries\<close>

lemma update_absent: "k \<notin> fst ` set ps \<Longrightarrow> AList.update k v ps = ps @ [(k, v)]"
  by (induction ps) auto


lemma dict_has_update: "dict_has x (AList.update k v d) \<longleftrightarrow> x = k \<or> dict_has x d"
  by (auto simp: dict_has_def dict_keys_def dom_update image_iff)


lemma dict_has_append: "dict_has x (d @ [(k, v)]) \<longleftrightarrow> x = k \<or> dict_has x d"
  by (auto simp: dict_has_def dict_keys_def)



subsection \<open>The states of the examples\<close>

lemma discovered_eq:
  "discover_plugins example_fs (PluginLoader_init [''plugins'']) =
     (Inr [JStr ''A'', JStr ''B'', JStr ''C''],
      \<lparr> plugin_dirs = [''plugins''], plugins = [],
        manifests = [(JStr ''A'', A_manifest), (JStr ''B'', B_manifest), (JStr ''C'', C_manifest)],
        plugin_paths = [(JStr ''A'', ''plugins/a''), (JStr ''B'', ''plugins/b''), (JStr ''C'', ''plugins/c'')],
        logged = [Info_initialized [''plugins''],
                  Info_discovered (JStr ''A'') (JStr ''1.0.0''),
                  Info_discovered (JStr ''B'') (JStr ''1.0.0''),
                  Info_discovered (JStr ''C'') (JStr ''1.0.0''),
                  Info_discovered_total 3],
        hook_calls = [] \<rparr>)"
  by (simp add: loader_defs A_manifest_def B_manifest_def C_manifest_def)

lemma discovered_fields:
  "plugins discovered = []"
  "manifests discovered = [(JStr ''A'', A_manifest), (JStr ''B'', B_manifest), (JStr ''C'', C_manifest)]"
  "plugin_paths discovered = [(JStr ''A'', ''plugins/a''), (JStr ''B'', ''plugins/b''), (JStr ''C'', ''plugins/c'')]"
  "hook_calls discovered = []"
  by (simp_all add: discovered_def discovered_eq)

lemmas manifest_records = A_manifest_def B_manifest_def C_manifest_def

lemma loader_A_eq:
  "load_plugin plain_importer ''A'' [] discovered =
     (Inr True,
      discovered\<lparr> plugins := [(''A'', BasePlugin_init BasePlugin_behaviour [])],
                  hook_calls := [Constructor_called ''A'', Initialize_called ''A''],
                  logged := logged discovered @ [Info_loaded ''A''] \<rparr>)"
  by (simp add: loader_defs discovered_fields manifest_records)

lemma loader_A_fields:
  "plugins loader_A = [(''A'', BasePlugin_init BasePlugin_behaviour [])]"
  "manifests loader_A = manifests discovered"
  "plugin_paths loader_A = plugin_paths discovered"
  by (simp_all add: loader_A_def loaded_with_def loader_A_eq)

lemma loader_AB_eq:
  "load_plugin plain_importer ''B'' [] loader_A =
     (Inr True,
      loader_A\<lparr> plugins := [(''A'', BasePlugin_init BasePlugin_behaviour []),
                             (''B'', BasePlugin_init BasePlugin_behaviour [])],
                hook_calls := hook_calls loader_A @ [Constructor_called ''B'', Initialize_called ''B''],
                logged := logged loader_A @ [Info_loaded ''B''] \<rparr>)"
  by (simp add: loader_defs loader_A_fields discovered_fields manifest_records)

lemma loader_AB_fields:
  "plugins loader_AB = [(''A'', BasePlugin_init BasePlugin_behaviour []),
                        (''B'', BasePlugin_init BasePlugin_behaviour [])]"
  "manifests loader_AB = manifests discovered"
  "plugin_paths loader_AB = plugin_paths discovered"
  by (simp_all add: loader_AB_def loaded_with_def loader_AB_eq loader_A_fields)

lemma loader_B_without_A_fields:
  "plugins loader_B_without_A = [(''B'', BasePlugin_init BasePlugin_behaviour [])]"
  "manifests loader_B_without_A = manifests discovered"
  "plugin_paths loader_B_without_A = plugin_paths discovered"
  by (simp_all add: loader_B_without_A_def unload_plugin_def loader_AB_fields log_def call_hook_def
      BasePlugin_init_def BasePlugin_behaviour_def)

subsection \<open>Manifests\<close>

lemma validate_required_JObj:
  "set fs \<subseteq> fst ` set d \<Longrightarrow> validate_required fs (JObj d) = None"
  by (induction fs) (auto simp: py_in_def)

lemma map_of_present: "k \<in> fst ` set d \<Longrightarrow> \<exists>v. map_of d k = Some v"
  by (cases "map_of d k") (auto simp: map_of_eq_None_iff)

lemma PluginManifest_init_without_capabilities:
  assumes "set required_fields \<subseteq> fst ` set d" "''capabilities'' \<notin> fst ` set d"
  shows "\<exists>msg. PluginManifest_init (JObj d) = Inl (TypeError msg)"
proof -
  have c: "map_of d ''capabilities'' = None"
    using assms(2) by (simp add: map_of_eq_None_iff)
  obtain n where n: "map_of d ''name'' = Some n"
    using assms(1) map_of_present [of "''name''" d] by (auto simp: required_fields_def)
  obtain v where v: "map_of d ''version'' = Some v"
    using assms(1) map_of_present [of "''version''" d] by (auto simp: required_fields_def)
  obtain ds where ds: "map_of d ''description'' = Some ds"
    using assms(1) map_of_present [of "''description''" d] by (auto simp: required_fields_def)
  obtain a where a: "map_of d ''author'' = Some a"
    using assms(1) map_of_present [of "''author''" d] by (auto simp: required_fields_def)
  obtain pc where pc: "map_of d ''plugin_class'' = Some pc"
    using assms(1) map_of_present [of "''plugin_class''" d] by (auto simp: required_fields_def)
  show ?thesis
    by (cases "find (\<lambda>k. k \<notin> set manifest_fields) (map fst d)")
       (simp_all add: PluginManifest_init_def c n v ds a pc)
qed

subsection \<open>Dependencies and imports\<close>

lemma check_dependencies_loop_frame:
  "check_dependencies_loop deps L = (r, L1) \<Longrightarrow>
     plugins L1 = plugins L \<and> manifests L1 = manifests L \<and> plugin_paths L1 = plugin_paths L \<and>
     hook_calls L1 = hook_calls L \<and> plugin_dirs L1 = plugin_dirs L"
  by (induction deps L rule: check_dependencies_loop.induct)
     (auto simp: log_def split: json.splits if_splits)

lemma check_dependencies_frame:
  "check_dependencies deps L = (r, L1) \<Longrightarrow>
     plugins L1 = plugins L \<and> manifests L1 = manifests L \<and> plugin_paths L1 = plugin_paths L \<and>
     hook_calls L1 = hook_calls L \<and> plugin_dirs L1 = plugin_dirs L"
  by (auto simp: check_dependencies_def split: if_splits option.splits
      dest: check_dependencies_loop_frame)

lemma check_dependencies_loop_names:
  "check_dependencies_loop (map JStr ds) L =
     (case find (\<lambda>d. \<not> dict_has d (plugins L)) ds of
        None \<Rightarrow> (Inr True, L)
      | Some d \<Rightarrow> (Inr False, log (Warning_missing_dependency (JStr d)) L))"
  by (induction ds) auto

lemma check_dependencies_names:
  "check_dependencies (JArr (map JStr ds)) L =
     (case find (\<lambda>d. \<not> dict_has d (plugins L)) ds of
        None \<Rightarrow> (Inr True, L)
      | Some d \<Rightarrow> (Inr False, log (Warning_missing_dependency (JStr d)) L))"
proof (cases ds)
  case Nil
  then show ?thesis by (simp add: check_dependencies_def py_truthy_def)
next
  case (Cons x xs)
  have "check_dependencies (JArr (map JStr ds)) L = check_dependencies_loop (map JStr ds) L"
    using Cons by (simp add: check_dependencies_def py_truthy_def py_iter_def)
  then show ?thesis
    by (simp only: check_dependencies_loop_names)
qed

lemma import_plugin_class_frame:
  "import_plugin_class imp path pc L = (r, L1) \<Longrightarrow>
     plugins L1 = plugins L \<and> manifests L1 = manifests L \<and> plugin_paths L1 = plugin_paths L \<and>
     hook_calls L1 = hook_calls L \<and> plugin_dirs L1 = plugin_dirs L"
  by (auto simp: import_plugin_class_def log_def split: json.splits if_splits import_result.splits)

lemma import_plugin_class_found:
  "CHR ''.'' \<in> set s \<Longrightarrow> imp path s = Import_class cls \<Longrightarrow>
     import_plugin_class imp path (JStr s) L = (Some cls, L)"
  by (simp add: import_plugin_class_def)

subsection \<open>Loading\<close>

lemma load_plugin_already_loaded:
  "dict_has B (plugins L) \<Longrightarrow>
     load_plugin imp B cfg L = (Inr True, log (Warning_already_loaded B) L)"
  by (simp add: load_plugin_def)

lemma load_plugin_missing_dependency:
  assumes "map_of (manifests L) (JStr B) = Some m" "map_of (plugin_paths L) (JStr B) = Some path"
    "dependencies m = JArr (map JStr ds)" "\<not> dict_has B (plugins L)"
    "find (\<lambda>d. \<not> dict_has d (plugins L)) ds = Some d"
  shows "load_plugin imp B cfg L =
     (Inr False, log (Error_missing_dependencies B) (log (Warning_missing_dependency (JStr d)) L))"
  using assms by (simp add: load_plugin_def check_dependencies_names)

lemma load_plugin_succeeds:
  assumes "map_of (manifests L) (JStr B) = Some m" "map_of (plugin_paths L) (JStr B) = Some path"
    "dependencies m = JArr (map JStr ds)" "\<not> dict_has B (plugins L)"
    "\<forall>d \<in> set ds. dict_has d (plugins L)"
    "plugin_class m = JStr pc" "CHR ''.'' \<in> set pc" "imp path pc = Import_class cls"
    "ctor_raises cls = None" "initialize cls = Init_True"
  shows "load_plugin imp B cfg L =
     (Inr True,
      log (Info_loaded B)
        (L\<lparr> hook_calls := hook_calls L @ [Constructor_called B, Initialize_called B],
            plugins := plugins L @ [(B, BasePlugin_init cls cfg)] \<rparr>))"
proof -
  have "find (\<lambda>d. \<not> dict_has d (plugins L)) ds = None"
    using assms(5) by (simp add: find_None_iff)
  then have c: "check_dependencies (JArr (map JStr ds)) L = (Inr True, L)"
    by (simp add: check_dependencies_names)
  have i: "import_plugin_class imp path (JStr pc) L = (Some cls, L)"
    using assms(7,8) by (rule import_plugin_class_found)
  have "B \<notin> fst ` set (plugins L)"
    using assms(4) by (simp add: dict_has_def dict_keys_def)
  then have u: "AList.update B (BasePlugin_init cls cfg) (plugins L) = plugins L @ [(B, BasePlugin_init cls cfg)]"
    by (rule update_absent)
  show ?thesis
    using assms(1,2,3,4,6,9,10) c i u by (simp add: load_plugin_def call_hook_def log_def)
qed

lemma load_plugin_plugins:
  "plugins (snd (load_plugin imp B cfg L)) = plugins L \<or>
   (fst (load_plugin imp B cfg L) = Inr True \<and> \<not> dict_has B (plugins L) \<and>
    (\<exists>inst. plugins (snd (load_plugin imp B cfg L)) = plugins L @ [(B, inst)]))"
proof (cases "dict_has B (plugins L)")
  case True
  then show ?thesis by (simp add: load_plugin_already_loaded log_def)
next
  case nb: False
  then have u: "AList.update B inst (plugins L) = plugins L @ [(B, inst)]" for inst
    by (intro update_absent) (simp add: dict_has_def dict_keys_def)
  show ?thesis
  proof (cases "map_of (manifests L) (JStr B)")
    case None
    with nb show ?thesis by (simp add: load_plugin_def log_def)
  next
    case m: (Some manifest)
    show ?thesis
    proof (cases "map_of (plugin_paths L) (JStr B)")
      case None
      with nb m show ?thesis by (simp add: load_plugin_def)
    next
      case p: (Some plugin_path)
      obtain r L1 where c: "check_dependencies (dependencies manifest) L = (r, L1)"
        by (cases "check_dependencies (dependencies manifest) L")
      then have f1: "plugins L1 = plugins L"
        using check_dependencies_frame by blast
      obtain c2 L2 where i: "import_plugin_class imp plugin_path (plugin_class manifest) L1 = (c2, L2)"
        by (cases "import_plugin_class imp plugin_path (plugin_class manifest) L1")
      then have f2: "plugins L2 = plugins L1"
        using import_plugin_class_frame by blast
      show ?thesis
      proof (cases r)
        case (Inl e)
        with nb m p c f1 show ?thesis by (simp add: load_plugin_def log_def)
      next
        case (Inr b)
        show ?thesis
        proof (cases b)
          case False
          with Inr nb m p c f1 show ?thesis by (simp add: load_plugin_def log_def)
        next
          case True
          show ?thesis
          proof (cases c2)
            case None
            with True Inr nb m p c i f1 f2 show ?thesis by (simp add: load_plugin_def log_def)
          next
            case (Some cls)
            with True Inr nb m p c i f1 f2 u show ?thesis
              by (cases "ctor_raises cls"; cases "initialize cls")
                 (simp_all add: load_plugin_def log_def call_hook_def)
          qed
        qed
      qed
    qed
  qed
qed

lemma load_plugin_frame:
  "manifests (snd (load_plugin imp B cfg L)) = manifests L \<and>
   plugin_paths (snd (load_plugin imp B cfg L)) = plugin_paths L"
proof (cases "dict_has B (plugins L)")
  case True
  then show ?thesis by (simp add: load_plugin_already_loaded log_def)
next
  case nb: False
  show ?thesis
  proof (cases "map_of (manifests L) (JStr B)")
    case None
    with nb show ?thesis by (simp add: load_plugin_def log_def)
  next
    case m: (Some manifest)
    show ?thesis
    proof (cases "map_of (plugin_paths L) (JStr B)")
      case None
      with nb m show ?thesis by (simp add: load_plugin_def)
    next
      case p: (Some plugin_path)
      obtain r L1 where c: "check_dependencies (dependencies manifest) L = (r, L1)"
        by (cases "check_dependencies (dependencies manifest) L")
      then have f1: "manifests L1 = manifests L" "plugin_paths L1 = plugin_paths L"
        using check_dependencies_frame by blast+
      obtain c2 L2 where i: "import_plugin_class imp plugin_path (plugin_class manifest) L1 = (c2, L2)"
        by (cases "import_plugin_class imp plugin_path (plugin_class manifest) L1")
      then have f2: "manifests L2 = manifests L1" "plugin_paths L2 = plugin_paths L1"
        using import_plugin_class_frame by blast+
      show ?thesis
      proof (cases r)
        case (Inl e)
        with nb m p c f1 show ?thesis by (simp add: load_plugin_def log_def)
      next
        case (Inr b)
        show ?thesis
        proof (cases b)
          case False
          with Inr nb m p c f1 show ?thesis by (simp add: load_plugin_def log_def)
        next
          case True
          show ?thesis
          proof (cases c2)
            case None
            with True Inr nb m p c i f1 f2 show ?thesis by (simp add: load_plugin_def log_def)
          next
            case (Some cls)
            with True Inr nb m p c i f1 f2 show ?thesis
              by (cases "ctor_raises cls"; cases "initialize cls")
                 (simp_all add: load_plugin_def log_def call_hook_def)
          qed
        qed
      qed
    qed
  qed
qed

lemma load_plugin_True_active:
  assumes "fst (load_plugin imp A cfg L) = Inr True"
  shows "dict_has A (plugins (snd (load_plugin imp A cfg L)))"
    and "dict_has x (plugins L) \<Longrightarrow> dict_has x (plugins (snd (load_plugin imp A cfg L)))"
proof -
  show "dict_has A (plugins (snd (load_plugin imp A cfg L)))"
  proof (cases "dict_has A (plugins L)")
    case True
    then show ?thesis by (simp add: load_plugin_already_loaded log_def)
  next
    case nb: False
    show ?thesis
    proof (cases "map_of (manifests L) (JStr A)")
      case None
      with nb assms show ?thesis by (simp add: load_plugin_def)
    next
      case m: (Some manifest)
      show ?thesis
      proof (cases "map_of (plugin_paths L) (JStr A)")
        case None
        with nb m assms show ?thesis by (simp add: load_plugin_def)
      next
        case p: (Some plugin_path)
        obtain r L1 where c: "check_dependencies (dependencies manifest) L = (r, L1)"
          by (cases "check_dependencies (dependencies manifest) L")
        obtain c2 L2 where i: "import_plugin_class imp plugin_path (plugin_class manifest) L1 = (c2, L2)"
          by (cases "import_plugin_class imp plugin_path (plugin_class manifest) L1")
        show ?thesis
        proof (cases r)
          case (Inl e)
          with nb m p c assms show ?thesis by (simp add: load_plugin_def)
        next
          case (Inr b)
          show ?thesis
          proof (cases b)
            case False
            with Inr nb m p c assms show ?thesis by (simp add: load_plugin_def)
          next
            case True
            show ?thesis
            proof (cases c2)
              case None
              with True Inr nb m p c i assms show ?thesis by (simp add: load_plugin_def)
            next
              case (Some cls)
              with True Inr nb m p c i assms show ?thesis
                by (cases "ctor_raises cls"; cases "initialize cls")
                   (simp_all add: load_plugin_def log_def call_hook_def dict_has_update)
            qed
          qed
        qed
      qed
    qed
  qed
  show "dict_has x (plugins (snd (load_plugin imp A cfg L)))" if "dict_has x (plugins L)"
    using load_plugin_plugins [of imp A cfg L] that by (auto simp: dict_has_append)
qed

subsection \<open>Unloading and querying\<close>








subsection \<open>The claims about the plugin loader\<close>

text \<open>
  C6. The claim is that a manifest with the five required keys and no \<open>capabilities\<close> key
  is accepted at discovery with an empty capability list. The code rejects it: whenever
  a manifest dict has the five keys of \<open>required_fields\<close> and no key \<open>capabilities\<close>,
  the validation loop passes, the dataclass constructor raises \<open>TypeError\<close>, and the
  discovery step for its directory logs that error, adds no name to the result and
  leaves the loader's dicts as they were.
\<close>

theorem manifest_without_capabilities_rejected:
  assumes "set required_fields \<subseteq> fst ` set d" and "''capabilities'' \<notin> fst ` set d"
  shows "\<exists>msg. validate_required required_fields (JObj d) = None \<and>
           load_manifest (JObj d) = Inl (TypeError msg) \<and>
           discover_item dir (item, Subdir (Some (Parsed (JObj d)))) (found, L) =
             (found,
              log (Error_manifest_failed (path_join (path_join dir item) ''manifest.json'') (TypeError msg)) L)"
proof -
  have v: "validate_required required_fields (JObj d) = None"
    using assms(1) by (rule validate_required_JObj)
  obtain msg where i: "PluginManifest_init (JObj d) = Inl (TypeError msg)"
    using PluginManifest_init_without_capabilities [OF assms] by blast
  have l: "load_manifest (JObj d) = Inl (TypeError msg)"
    by (simp add: load_manifest_def v i)
  have "discover_item dir (item, Subdir (Some (Parsed (JObj d)))) (found, L) =
          (found,
           log (Error_manifest_failed (path_join (path_join dir item) ''manifest.json'') (TypeError msg)) L)"
    by (simp add: discover_item_def l)
  with v l show ?thesis by blast
qed

theorem manifest_without_capabilities_rejected_witness:
  "set required_fields \<subseteq>
     fst ` set [(''name'', JStr ''A''), (''version'', JStr ''1.0.0''),
                (''description'', JStr ''speech input''), (''author'', JStr ''shivai''),
                (''plugin_class'', JStr ''plugin.A'')] \<and>
   load_manifest manifest_no_capabilities = Inl (TypeError ''missing argument capabilities'') \<and>
   discover_plugins fs_no_capabilities (PluginLoader_init [''plugins'']) =
     (Inr [],
      \<lparr> plugin_dirs = [''plugins''], plugins = [], manifests = [], plugin_paths = [],
        logged = [Info_initialized [''plugins''],
                  Error_manifest_failed ''plugins/a/manifest.json''
                    (TypeError ''missing argument capabilities''),
                  Info_discovered_total 0],
        hook_calls = [] \<rparr>)"
  using manifest_without_capabilities_rejected
          [of "[(''name'', JStr ''A''), (''version'', JStr ''1.0.0''),
                (''description'', JStr ''speech input''), (''author'', JStr ''shivai''),
                (''plugin_class'', JStr ''plugin.A'')]"
              "''plugins''" "''a''" "[]" "PluginLoader_init [''plugins'']"]
  by (simp add: loader_defs)

text \<open>
  C8, as the code has it. Let \<open>B\<close> be a discovered plugin whose manifest lists the
  names \<open>ds\<close> as dependencies. When \<open>B\<close> is not active and a dependency \<open>A\<close> is not
  active at the moment of the call, \<open>load_plugin\<close> returns \<open>False\<close>, warns about the
  first dependency that is not active, logs the missing dependencies and changes nothing
  else; the check reads the active set of the call's own state. When \<open>B\<close> is already
  active the call returns \<open>True\<close> at once with a warning and changes nothing else,
  whatever has become of its dependencies. After a call \<open>load_plugin A\<close> that returned
  \<open>True\<close>, a call for another plugin \<open>B\<close> that is not active succeeds and makes \<open>B\<close>
  the last entry of the active set, with \<open>A\<close> still active, provided that every
  dependency of \<open>B\<close> is \<open>A\<close> or was active before, and that the class of \<open>B\<close>
  imports, constructs and initialises to \<open>True\<close>.
\<close>

theorem load_plugin_dependency_check:
  assumes "map_of (manifests L) (JStr B) = Some m" and "map_of (plugin_paths L) (JStr B) = Some path"
    and "dependencies m = JArr (map JStr ds)"
  shows
    "(\<not> dict_has B (plugins L) \<and> A \<in> set ds \<and> \<not> dict_has A (plugins L) \<longrightarrow>
        (\<exists>d \<in> set ds. \<not> dict_has d (plugins L) \<and>
           load_plugin imp B cfg L =
             (Inr False,
              log (Error_missing_dependencies B) (log (Warning_missing_dependency (JStr d)) L))) \<and>
        plugins (snd (load_plugin imp B cfg L)) = plugins L) \<and>
     (dict_has B (plugins L) \<longrightarrow>
        load_plugin imp B cfg L = (Inr True, log (Warning_already_loaded B) L) \<and>
        plugins (snd (load_plugin imp B cfg L)) = plugins L) \<and>
     (fst (load_plugin imp A cfg_A L) = Inr True \<and> B \<noteq> A \<and> \<not> dict_has B (plugins L) \<and>
      (\<forall>D \<in> set ds. D = A \<or> dict_has D (plugins L)) \<and>
      plugin_class m = JStr pc \<and> CHR ''.'' \<in> set pc \<and> imp path pc = Import_class cls \<and>
      ctor_raises cls = None \<and> initialize cls = Init_True \<longrightarrow>
        load_plugin imp B cfg (snd (load_plugin imp A cfg_A L)) =
          (Inr True,
           log (Info_loaded B)
             ((snd (load_plugin imp A cfg_A L))
                \<lparr> hook_calls := hook_calls (snd (load_plugin imp A cfg_A L)) @
                                  [Constructor_called B, Initialize_called B],
                  plugins := plugins (snd (load_plugin imp A cfg_A L)) @ [(B, BasePlugin_init cls cfg)] \<rparr>)) \<and>
        dict_has A (plugins (snd (load_plugin imp A cfg_A L))))"
proof (intro conjI impI)
  assume h: "\<not> dict_has B (plugins L) \<and> A \<in> set ds \<and> \<not> dict_has A (plugins L)"
  then have nb: "\<not> dict_has B (plugins L)" and ad: "A \<in> set ds"
    and na: "\<not> dict_has A (plugins L)"
    by simp_all
  from ad na have "find (\<lambda>d. \<not> dict_has d (plugins L)) ds \<noteq> None"
    by (auto simp: find_None_iff)
  then obtain d where d: "find (\<lambda>d. \<not> dict_has d (plugins L)) ds = Some d"
    by blast
  then have dm: "d \<in> set ds" and dn: "\<not> dict_has d (plugins L)"
    by (auto simp: find_Some_iff)
  have eq: "load_plugin imp B cfg L =
             (Inr False,
              log (Error_missing_dependencies B) (log (Warning_missing_dependency (JStr d)) L))"
    using assms nb d by (rule load_plugin_missing_dependency)
  from dm dn eq show "\<exists>d \<in> set ds. \<not> dict_has d (plugins L) \<and>
           load_plugin imp B cfg L =
             (Inr False,
              log (Error_missing_dependencies B) (log (Warning_missing_dependency (JStr d)) L))"
    by blast
  show "plugins (snd (load_plugin imp B cfg L)) = plugins L"
    by (simp only: eq snd_conv) (simp add: log_def)
next
  assume "dict_has B (plugins L)"
  then show *: "load_plugin imp B cfg L = (Inr True, log (Warning_already_loaded B) L)"
    by (rule load_plugin_already_loaded)
  show "plugins (snd (load_plugin imp B cfg L)) = plugins L"
    by (simp only: * snd_conv) (simp add: log_def)
next
  let ?L1 = "snd (load_plugin imp A cfg_A L)"
  assume h: "fst (load_plugin imp A cfg_A L) = Inr True \<and> B \<noteq> A \<and> \<not> dict_has B (plugins L) \<and>
      (\<forall>D \<in> set ds. D = A \<or> dict_has D (plugins L)) \<and>
      plugin_class m = JStr pc \<and> CHR ''.'' \<in> set pc \<and> imp path pc = Import_class cls \<and>
      ctor_raises cls = None \<and> initialize cls = Init_True"
  then have t: "fst (load_plugin imp A cfg_A L) = Inr True" and ne: "B \<noteq> A"
    and nb0: "\<not> dict_has B (plugins L)"
    and d: "\<forall>D \<in> set ds. D = A \<or> dict_has D (plugins L)"
    and c0: "plugin_class m = JStr pc" and c1: "CHR ''.'' \<in> set pc"
    and c2: "imp path pc = Import_class cls"
    and c3: "ctor_raises cls = None" and c4: "initialize cls = Init_True"
    by simp_all
  show a: "dict_has A (plugins ?L1)"
    using t by (rule load_plugin_True_active(1))
  have keep: "dict_has x (plugins ?L1)" if "dict_has x (plugins L)" for x
    using t that by (rule load_plugin_True_active(2))
  have nb: "\<not> dict_has B (plugins ?L1)"
    using load_plugin_plugins [of imp A cfg_A L] ne nb0 by (auto simp: dict_has_append)
  have deps: "\<forall>D \<in> set ds. dict_has D (plugins ?L1)"
  proof
    fix D assume "D \<in> set ds"
    with d have "D = A \<or> dict_has D (plugins L)" by (rule bspec)
    then show "dict_has D (plugins ?L1)"
    proof
      assume "D = A" then show ?thesis by (simp only: a)
    next
      assume "dict_has D (plugins L)" then show ?thesis by (rule keep)
    qed
  qed
  note fr = load_plugin_frame [of imp A cfg_A L]
  have m1: "map_of (manifests ?L1) (JStr B) = Some m"
    by (simp only: fr [THEN conjunct1] assms(1))
  have p1: "map_of (plugin_paths ?L1) (JStr B) = Some path"
    by (simp only: fr [THEN conjunct2] assms(2))
  show "load_plugin imp B cfg ?L1 =
          (Inr True,
           log (Info_loaded B)
             (?L1\<lparr> hook_calls := hook_calls ?L1 @ [Constructor_called B, Initialize_called B],
                   plugins := plugins ?L1 @ [(B, BasePlugin_init cls cfg)] \<rparr>))"
    by (rule load_plugin_succeeds
               [where imp = imp and cls = cls and path = path and cfg = cfg and pc = pc,
                OF m1 p1 assms(3) nb deps c0 c1 c2 c3 c4])
qed

theorem load_plugin_dependency_check_witness:
  "map_of (manifests discovered) (JStr ''B'') = Some B_manifest \<and>
   map_of (plugin_paths discovered) (JStr ''B'') = Some ''plugins/b'' \<and>
   dependencies B_manifest = JArr (map JStr [''A'']) \<and>
   \<not> dict_has ''B'' (plugins discovered) \<and> \<not> dict_has ''A'' (plugins discovered) \<and>
   fst (load_plugin plain_importer ''B'' [] discovered) = Inr False \<and>
   plugins (snd (load_plugin plain_importer ''B'' [] discovered)) = plugins discovered \<and>
   dict_has ''B'' (plugins loader_AB) \<and>
   fst (load_plugin plain_importer ''B'' [] loader_AB) = Inr True \<and>
   fst (load_plugin plain_importer ''A'' [] discovered) = Inr True \<and>
   fst (load_plugin plain_importer ''B'' [] (snd (load_plugin plain_importer ''A'' [] discovered))) = Inr True"
  using load_plugin_dependency_check
          [where L = discovered and B = "''B''" and m = B_manifest and path = "''plugins/b''"
             and ds = "[''A'']" and A = "''A''" and imp = plain_importer and cfg = "[]"
             and cfg_A = "[]" and pc = "''plugin.B''" and cls = BasePlugin_behaviour]
        load_plugin_dependency_check
          [where L = loader_AB and B = "''B''" and m = B_manifest and path = "''plugins/b''"
             and ds = "[''A'']" and A = "''A''" and imp = plain_importer and cfg = "[]"
             and cfg_A = "[]" and pc = "''plugin.B''" and cls = BasePlugin_behaviour]
  by (simp add: discovered_fields loader_AB_fields manifest_records dict_has_def dict_keys_def
        plain_importer_def BasePlugin_behaviour_def loader_A_eq log_def)

theorem load_plugin_dependency_counterexample:
  "map_of (manifests loader_B_without_A) (JStr ''B'') = Some B_manifest \<and>
   dependencies B_manifest = JArr [JStr ''A''] \<and>
   \<not> dict_has ''A'' (plugins loader_B_without_A) \<and>
   fst (load_plugin plain_importer ''B'' [] loader_B_without_A) = Inr True \<and>
   map_of (manifests discovered) (JStr ''C'') = Some C_manifest \<and>
   dependencies C_manifest = JArr [JStr ''A'', JStr ''Z''] \<and>
   fst (load_plugin plain_importer ''A'' [] discovered) = Inr True \<and>
   fst (load_plugin plain_importer ''C'' [] loader_A) = Inr False"
  by (simp add: loader_B_without_A_fields loader_A_fields discovered_fields manifest_records
        loader_A_eq loader_defs)







section \<open>Properties of the task queue\<close>

declare siftdown_loop.simps [simp del] siftup_loop.simps [simp del]

subsection \<open>One worker and one task\<close>










lemma queue_get_running: "queue_get q = Some (t, q1) \<Longrightarrow> running q1 = running q"
  by (auto simp: queue_get_def split: option.splits)


subsection \<open>One attempt\<close>






subsection \<open>Cancelling\<close>






subsection \<open>What a worker leaves in place\<close>

lemma process_task_trace: "\<exists>evs. trace (process_task t q) = trace q @ evs"
  by (cases "outcome (call_func t)")
     (auto simp: process_task_def execute_task_def Let_def)


lemma queue_get_fields:
  "queue_get q = Some (t, q1) \<Longrightarrow>
     trace q1 = trace q \<and> completed_tasks q1 = completed_tasks q \<and>
     pending_tasks q1 = pending_tasks q \<and> running q1 = running q"
  by (auto simp: queue_get_def split: option.splits)

lemma worker_trace: "\<exists>evs. trace (worker n q) = trace q @ evs"
proof (induction n arbitrary: q)
  case 0
  then show ?case by simp
next
  case (Suc n)
  show ?case
  proof (cases "running q")
    case False
    then show ?thesis by simp
  next
    case True
    show ?thesis
    proof (cases "queue_get q")
      case None
      with True Suc show ?thesis by simp
    next
      case (Some a)
      obtain t q1 where a: "a = (t, q1)" by (cases a)
      obtain e1 where e1: "trace (process_task t q1) = trace q1 @ e1"
        using process_task_trace by blast
      obtain e2 where e2: "trace (worker n (process_task t q1)) = trace (process_task t q1) @ e2"
        using Suc by blast
      have "trace q1 = trace q"
        using Some a queue_get_fields by blast
      with e1 e2 True Some a show ?thesis by simp
    qed
  qed
qed


subsection \<open>Polling for a result\<close>




subsection \<open>The fields after one attempt\<close>





subsection \<open>The states of the examples\<close>






subsection \<open>The heap\<close>




lemma task_le_total: "task_le a b \<or> task_le b a"
  by (auto simp: task_le_def task_lt_def split: if_splits)


lemma siftdown_loop_length: "length (siftdown_loop h x s pos) = length h"
proof (induction h x s pos rule: siftdown_loop.induct)
  case (1 heap newitem startpos pos)
  show ?case
  proof (cases "pos > startpos \<and> task_lt newitem (heap ! ((pos - 1) div 2))")
    case True
    then have "siftdown_loop heap newitem startpos pos =
        siftdown_loop (heap[pos := heap ! ((pos - 1) div 2)]) newitem startpos ((pos - 1) div 2)"
      by (subst siftdown_loop.simps) (simp add: Let_def)
    then show ?thesis
      using True "1.IH" by simp
  next
    case False
    then have "siftdown_loop heap newitem startpos pos = heap[pos := newitem]"
      by (subst siftdown_loop.simps) (auto simp: Let_def)
    then show ?thesis by simp
  qed
qed




lemma heappush_length: "length (heappush h t) = Suc (length h)"
  by (simp add: heappush_def siftdown_def siftdown_loop_length)



lemma parent_less: "0 < i \<Longrightarrow> (i - 1) div 2 < (i::nat)"
  by arith










subsection \<open>Every task in the queue is reached\<close>









subsection \<open>The claims about the task queue\<close>



















end
